theory Spec2Isabelle
  imports Main
begin

section \<open>The Meelo matcher's API client (matcher/api.py)\<close>

text \<open>
  The client is one Python class, \<open>API\<close>, holding a base URL and an API key, whose
  methods turn into one HTTP request each. The embedding keeps the class's structure:
  the object is a record, every method is a function from the program state to a
  result and the state afterwards, and every \<open>raise\<close> is a value of the error type.
  Names starting with an underscore in the source lose it or get the prefix \<open>api_\<close>
  (\<open>_url\<close> is \<open>api_url\<close>, \<open>_get\<close> is \<open>api_get\<close>, \<open>_to_page\<close> is \<open>to_page\<close>).
\<close>

subsection \<open>Values\<close>

text \<open>
  What \<open>response.json()\<close> returns and what \<open>requests.post(json=...)\<close> takes: Python
  values decoded from JSON. A Python dict is an association list with distinct keys.
\<close>

datatype json =
    JNull
  | JBool bool
  | JInt int
  | JStr string
  | JArr "json list"
  | JObj "(string \<times> json) list"

text \<open>
  The exceptions of the program. \<open>Exception\<close> is the generic exception the source
  raises itself, with its argument; the others are raised by the calls the source makes
  (\<open>open\<close>, the HTTP library, \<open>response.json()\<close>, subscripting, schema loading).
\<close>

datatype error =
    Exception string
  | OSError string
  | ConnectionError
  | JSONDecodeError
  | KeyError string
  | TypeError
  | IndexError
  | ValidationError

subsection \<open>Strings\<close>

text \<open>\<open>s.split(sep)\<close> for a one-character separator: never an empty list.\<close>

fun str_split :: "char \<Rightarrow> string \<Rightarrow> string list" where
  "str_split sep [] = [[]]"
| "str_split sep (c # cs) =
     (if c = sep then [] # str_split sep cs
      else (case str_split sep cs of
              [] \<Rightarrow> [[c]]
            | w # ws \<Rightarrow> (c # w) # ws))"

text \<open>\<open>xs[0]\<close>: IndexError on an empty list.\<close>

fun item0 :: "'a list \<Rightarrow> error + 'a" where
  "item0 [] = Inl IndexError"
| "item0 (x # xs) = Inr x"

text \<open>\<open>x or ""\<close> for an optional string: the string when it is there and not empty.\<close>

definition or_empty :: "string option \<Rightarrow> string" where
  "or_empty x = (case x of None \<Rightarrow> [] | Some s \<Rightarrow> (if s = [] then [] else s))"

text \<open>\<open>str(n)\<close> of an integer, as the f-string of the icon route formats it.\<close>

definition digit :: "nat \<Rightarrow> char" where
  "digit d = char_of (48 + d)"

fun str_nat :: "nat \<Rightarrow> string" where
  "str_nat n = (if n < 10 then [digit n] else str_nat (n div 10) @ [digit (n mod 10)])"

definition str_int :: "int \<Rightarrow> string" where
  "str_int i = (if i < 0 then CHR ''-'' # str_nat (nat (- i)) else str_nat (nat i))"

subsection \<open>The client object and its construction\<close>

record api =
  api_url :: string
  api_key :: string

definition quoted :: "string \<Rightarrow> string" where
  "quoted s = [CHR 0x27] @ s @ [CHR 0x27]"

definition missing_url :: string where
  "missing_url = ''Missing env variable: '' @ quoted ''API_URL''"

definition missing_keys :: string where
  "missing_keys = ''Missing or empty env variable: '' @ quoted ''API_KEYS''"

text \<open>
  \<open>API.__init__\<close>, with \<open>os.environ\<close> as a map. \<open>not self._url\<close> holds for an absent
  and for an empty value.
\<close>

definition init :: "(string \<rightharpoonup> string) \<Rightarrow> error + api" where
  "init environ =
     (case environ ''API_URL'' of
        None \<Rightarrow> Inl (Exception missing_url)
      | Some u \<Rightarrow>
          if u = [] then Inl (Exception missing_url)
          else (case item0 (str_split CHR '','' (or_empty (environ ''API_KEYS''))) of
                  Inl e \<Rightarrow> Inl e
                | Inr k \<Rightarrow>
                    if k = [] then Inl (Exception missing_keys)
                    else Inr \<lparr>api_url = u, api_key = k\<rparr>))"

subsection \<open>The HTTP library, the file system and the log\<close>

datatype http_method = GET | POST

text \<open>An open file: the path it was opened from and the bytes it holds.\<close>

record file_handle =
  fh_path :: string
  fh_data :: string

text \<open>
  The arguments of one \<open>requests.get\<close> or \<open>requests.post\<close> call: the keyword arguments
  \<open>files\<close> and \<open>json\<close> are \<open>None\<close> or a dict.
\<close>

record request =
  req_method :: http_method
  req_url :: string
  req_headers :: "(string \<times> string) list"
  req_files :: "(string \<times> file_handle) list option"
  req_json :: "(string \<times> json) list option"

text \<open>
  A \<open>requests.Response\<close>: \<open>status_code\<close>, \<open>content\<close> (the raw body) and what \<open>json()\<close>
  returns, \<open>None\<close> when the body does not decode.
\<close>

record response =
  status_code :: int
  content :: string
  json_body :: "json option"

text \<open>
  The truth value of a response is its \<open>ok\<close> property: false for the statuses from 400
  to 599.
\<close>

definition ok :: "response \<Rightarrow> bool" where
  "ok r = (\<not> (400 \<le> status_code r \<and> status_code r < 600))"

text \<open>
  The outside of the program: what the server answers to a request (\<open>None\<close> when the
  HTTP library raises instead of returning a response) and which paths \<open>open\<close> can read.
\<close>

record world =
  server :: "request \<Rightarrow> response option"
  fs :: "string \<Rightarrow> string option"

text \<open>
  The state a method runs in: the client object \<open>self\<close>, the requests handed to the
  HTTP library so far, and the messages logged so far, both oldest first.
\<close>

record state =
  self :: api
  sent :: "request list"
  logged :: "string list"

definition requests_call :: "world \<Rightarrow> request \<Rightarrow> state \<Rightarrow> (error + response) \<times> state" where
  "requests_call W req s =
     (case server W req of
        None \<Rightarrow> (Inl ConnectionError, s\<lparr>sent := sent s @ [req]\<rparr>)
      | Some r \<Rightarrow> (Inr r, s\<lparr>sent := sent s @ [req]\<rparr>))"

definition open_rb :: "world \<Rightarrow> string \<Rightarrow> error + file_handle" where
  "open_rb W path =
     (case fs W path of
        None \<Rightarrow> Inl (OSError path)
      | Some d \<Rightarrow> Inr \<lparr>fh_path = path, fh_data = d\<rparr>)"

definition logging_error :: "string \<Rightarrow> state \<Rightarrow> state" where
  "logging_error msg s = s\<lparr>logged := logged s @ [msg]\<rparr>"

subsection \<open>The transport helpers\<close>

definition api_headers :: "state \<Rightarrow> (string \<times> string) list" where
  "api_headers s = [(''x-api-key'', api_key (self s))]"

text \<open>
  The arguments \<open>_get\<close> and \<open>_post\<close> build for the HTTP library: the URL is the base
  URL followed by the route, and \<open>requests.get\<close> is given neither \<open>files\<close> nor \<open>json\<close>.
\<close>

definition get_request :: "state \<Rightarrow> string \<Rightarrow> request" where
  "get_request s route =
     \<lparr>req_method = GET, req_url = api_url (self s) @ route,
      req_headers = api_headers s, req_files = None, req_json = None\<rparr>"

definition post_request ::
  "state \<Rightarrow> string \<Rightarrow> (string \<times> file_handle) list option \<Rightarrow> (string \<times> json) list option
     \<Rightarrow> request" where
  "post_request s route fl js =
     \<lparr>req_method = POST, req_url = api_url (self s) @ route,
      req_headers = api_headers s, req_files = fl, req_json = js\<rparr>"

text \<open>\<open>API._get\<close>\<close>

definition api_get :: "world \<Rightarrow> string \<Rightarrow> state \<Rightarrow> (error + response) \<times> state" where
  "api_get W route s =
     (case requests_call W (get_request s route) s of
        (Inl e, s') \<Rightarrow> (Inl e, s')
      | (Inr response, s') \<Rightarrow>
          if status_code response \<noteq> 200
          then (Inl (Exception (content response)), logging_error ''GETting API failed: '' s')
          else (Inr response, s'))"

text \<open>
  \<open>API._post\<close>. Python evaluates the arguments of \<open>requests.post\<close> in order, so
  \<open>open\<close> runs, and may raise, before the call.
\<close>

definition post_files ::
  "world \<Rightarrow> string \<Rightarrow> error + (string \<times> file_handle) list option" where
  "post_files W file_path =
     (if length file_path \<noteq> 0
      then (case open_rb W file_path of
              Inl e \<Rightarrow> Inl e
            | Inr fh \<Rightarrow> Inr (Some [(''file'', fh)]))
      else Inr None)"

definition post_json :: "(string \<times> json) list \<Rightarrow> (string \<times> json) list option" where
  "post_json j = (if length (map fst j) \<noteq> 0 then Some j else None)"

definition api_post ::
  "world \<Rightarrow> string \<Rightarrow> (string \<times> json) list \<Rightarrow> string \<Rightarrow> state \<Rightarrow> (error + response) \<times> state"
where
  "api_post W route j file_path s =
     (case post_files W file_path of
        Inl e \<Rightarrow> (Inl e, s)
      | Inr fl \<Rightarrow>
          (case requests_call W (post_request s route fl (post_json j)) s of
             (Inl e, s') \<Rightarrow> (Inl e, s')
           | (Inr response, s') \<Rightarrow>
               if status_code response \<noteq> 201
               then (Inl (Exception (content response)), logging_error ''POSTting API failed: '' s')
               else (Inr response, s')))"

subsection \<open>The models of matcher.models.api\<close>

text \<open>
  The client imports the classes \<open>Provider\<close>, \<open>Page\<close> and \<open>CreateProviderDto\<close> from
  \<open>matcher.models.api\<close>; their declarations are not in \<open>api.py\<close>.
\<close>

text \<open>
  Modelled from the spec: the class \<open>Provider\<close>, whose declaration is missing: a record
  with an identifier and a name.
\<close>

record provider =
  prov_id :: int
  prov_name :: string

text \<open>
  Modelled from the spec: the class \<open>Page\<close>, whose declaration is missing: a wrapper
  around an ordered sequence of items.
\<close>

datatype 'a page = Page (items: "'a list")

text \<open>
  Modelled from the spec: the class \<open>CreateProviderDto\<close>, whose declaration is missing:
  an outbound payload with just the provider name.
\<close>

record create_provider_dto =
  dto_name :: string

text \<open>
  Modelled from the spec: \<open>CreateProviderDto.to_dict\<close>, missing with the class: the JSON
  body \<open>{name}\<close>.
\<close>

definition to_dict :: "create_provider_dto \<Rightarrow> (string \<times> json) list" where
  "to_dict dto = [(''name'', JStr (dto_name dto))]"

text \<open>
  Modelled from the spec: \<open>Provider.schema().load\<close>, missing with the class: it reads
  the fields \<open>id\<close> and \<open>name\<close> of a JSON object and fails on anything else.
\<close>

fun provider_load :: "json \<Rightarrow> error + provider" where
  "provider_load (JObj kvs) =
     (case (map_of kvs ''id'', map_of kvs ''name'') of
        (Some (JInt i), Some (JStr n)) \<Rightarrow> Inr \<lparr>prov_id = i, prov_name = n\<rparr>
      | _ \<Rightarrow> Inl ValidationError)"
| "provider_load _ = Inl ValidationError"

text \<open>The JSON object the server sends for a provider.\<close>

definition provider_json :: "provider \<Rightarrow> json" where
  "provider_json p = JObj [(''id'', JInt (prov_id p)), (''name'', JStr (prov_name p))]"

text \<open>
  \<open>schema.load(xs, many=True)\<close> for the schema of any element type \<open>t\<close>: the input is
  an array, every element is loaded in turn, and one bad element fails the whole load.
\<close>

fun load_all :: "(json \<Rightarrow> error + 'a) \<Rightarrow> json list \<Rightarrow> error + 'a list" where
  "load_all t [] = Inr []"
| "load_all t (x # xs) =
     (case t x of
        Inl e \<Rightarrow> Inl e
      | Inr v \<Rightarrow> (case load_all t xs of Inl e \<Rightarrow> Inl e | Inr vs \<Rightarrow> Inr (v # vs)))"

fun load_many :: "(json \<Rightarrow> error + 'a) \<Rightarrow> json \<Rightarrow> error + 'a list" where
  "load_many t (JArr xs) = load_all t xs"
| "load_many t _ = Inl ValidationError"

text \<open>\<open>obj[key]\<close> on a decoded JSON value.\<close>

fun subscript :: "json \<Rightarrow> string \<Rightarrow> error + json" where
  "subscript (JObj kvs) k =
     (case map_of kvs k of None \<Rightarrow> Inl (KeyError k) | Some v \<Rightarrow> Inr v)"
| "subscript _ k = Inl TypeError"

subsection \<open>The operations\<close>

text \<open>\<open>API._to_page\<close>, the schema of the element type as a parameter.\<close>

definition to_page :: "json \<Rightarrow> (json \<Rightarrow> error + 'a) \<Rightarrow> error + 'a page" where
  "to_page obj t =
     (case subscript obj ''items'' of
        Inl e \<Rightarrow> Inl e
      | Inr v \<Rightarrow> (case load_many t v of Inl e \<Rightarrow> Inl e | Inr its \<Rightarrow> Inr (Page its)))"

text \<open>\<open>response.json()\<close>\<close>

definition response_json :: "response \<Rightarrow> error + json" where
  "response_json r = (case json_body r of None \<Rightarrow> Inl JSONDecodeError | Some v \<Rightarrow> Inr v)"

text \<open>\<open>API.ping\<close>\<close>

definition ping :: "world \<Rightarrow> state \<Rightarrow> (error + bool) \<times> state" where
  "ping W s =
     (case api_get W ''/'' s of
        (Inl e, s') \<Rightarrow> (Inl e, s')
      | (Inr response, s') \<Rightarrow> (Inr (if ok response then True else False), s'))"

text \<open>\<open>API.get_providers\<close>\<close>

definition get_providers :: "world \<Rightarrow> state \<Rightarrow> (error + provider page) \<times> state" where
  "get_providers W s =
     (case api_get W ''/external-providers'' s of
        (Inl e, s') \<Rightarrow> (Inl e, s')
      | (Inr r, s') \<Rightarrow>
          (case response_json r of
             Inl e \<Rightarrow> (Inl e, s')
           | Inr response \<Rightarrow> (to_page response provider_load, s')))"

text \<open>\<open>API.post_provider\<close>\<close>

definition post_provider :: "world \<Rightarrow> string \<Rightarrow> state \<Rightarrow> (error + provider) \<times> state" where
  "post_provider W provider_name s =
     (let dto = \<lparr>dto_name = provider_name\<rparr> in
      case api_post W ''/external-providers'' (to_dict dto) [] s of
        (Inl e, s') \<Rightarrow> (Inl e, s')
      | (Inr response, s') \<Rightarrow>
          (case response_json response of
             Inl e \<Rightarrow> (Inl e, s')
           | Inr v \<Rightarrow> (provider_load v, s')))"

text \<open>\<open>API.post_provider_icon\<close>\<close>

definition icon_route :: "int \<Rightarrow> string" where
  "icon_route provider_id = ''/external-providers/'' @ str_int provider_id @ ''/icon''"

definition post_provider_icon :: "world \<Rightarrow> int \<Rightarrow> string \<Rightarrow> state \<Rightarrow> (error + unit) \<times> state" where
  "post_provider_icon W provider_id icon_path s =
     (case api_post W (icon_route provider_id) [] icon_path s of
        (Inl e, s') \<Rightarrow> (Inl e, s')
      | (Inr response, s') \<Rightarrow> (Inr (), s'))"

text \<open>The requests a run from state \<open>s\<close> to state \<open>s'\<close> has issued.\<close>

definition issued :: "state \<Rightarrow> state \<Rightarrow> request list" where
  "issued s s' = drop (length (sent s)) (sent s')"

subsection \<open>Concrete runs\<close>

text \<open>
  A client built from the settings \<open>API_URL=http://api\<close> and \<open>API_KEYS=k1,k2\<close> before
  its first call, and a world whose server gives one answer to every request.
\<close>

definition fresh :: state where
  "fresh = \<lparr>self = \<lparr>api_url = ''http://api'', api_key = ''k1''\<rparr>, sent = [], logged = []\<rparr>"

definition answering :: "response \<Rightarrow> (string \<Rightarrow> string option) \<Rightarrow> world" where
  "answering r files = \<lparr>server = (\<lambda>req. Some r), fs = files\<rparr>"

definition no_files :: "string \<Rightarrow> string option" where
  "no_files path = None"

definition one_file :: "string \<Rightarrow> string \<Rightarrow> string \<Rightarrow> string option" where
  "one_file name data path = (if path = name then Some data else None)"

section \<open>Properties\<close>

subsection \<open>Strings\<close>

lemma str_split_not_Nil: "str_split sep s \<noteq> []"
  by (induction s) (auto split: list.splits)

lemma item0_str_split: "item0 (str_split sep s) = Inr (takeWhile (\<lambda>c. c \<noteq> sep) s)"
proof (induction s)
  case Nil
  show ?case by simp
next
  case (Cons c cs)
  then show ?case
    by (cases "str_split sep cs") auto
qed

lemma or_empty_simps: "or_empty None = []" "or_empty (Some ks) = ks"
  by (simp_all add: or_empty_def)

lemma takeWhile_first_key:
  "sep \<notin> set k1 \<Longrightarrow> takeWhile (\<lambda>c. c \<noteq> sep) (k1 @ sep # rest) = k1"
  by (induction k1) auto

lemma str_int_5: "str_int 5 = ''5''"
  by code_simp

lemma str_int_examples: "str_int 0 = ''0'' \<and> str_int 42 = ''42'' \<and> str_int (- 7) = ''-7''"
  by code_simp

subsection \<open>Construction\<close>

text \<open>The constructor in one piece: the key is the setting up to its first comma.\<close>

lemma init_eq:
  "init environ =
     (case environ ''API_URL'' of
        None \<Rightarrow> Inl (Exception missing_url)
      | Some u \<Rightarrow>
          if u = [] then Inl (Exception missing_url)
          else if takeWhile (\<lambda>c. c \<noteq> CHR '','') (or_empty (environ ''API_KEYS'')) = []
          then Inl (Exception missing_keys)
          else Inr \<lparr>api_url = u,
                    api_key = takeWhile (\<lambda>c. c \<noteq> CHR '','') (or_empty (environ ''API_KEYS''))\<rparr>)"
  by (simp add: init_def item0_str_split split: option.splits)

text \<open>
  C4: construction raises when the base-URL setting is absent, raises when the API-key
  setting is absent or empty (with the message of the keys when the base URL is there),
  and, when the API-key setting is a first key \<open>k1\<close> followed by a comma and more,
  succeeds and stores \<open>k1\<close> alone.
\<close>

theorem init_contract:
  "(environ ''API_URL'' = None \<longrightarrow> init environ = Inl (Exception missing_url)) \<and>
   (environ ''API_KEYS'' = None \<or> environ ''API_KEYS'' = Some [] \<longrightarrow>
      isl (init environ) \<and>
      (environ ''API_URL'' = Some u \<and> u \<noteq> [] \<longrightarrow> init environ = Inl (Exception missing_keys))) \<and>
   (environ ''API_URL'' = Some u \<and> u \<noteq> [] \<and>
    environ ''API_KEYS'' = Some (k1 @ CHR '','' # rest) \<and> k1 \<noteq> [] \<and> CHR '','' \<notin> set k1 \<longrightarrow>
      init environ = Inr \<lparr>api_url = u, api_key = k1\<rparr>)"
proof (intro conjI impI)
  assume "environ ''API_URL'' = None"
  then show "init environ = Inl (Exception missing_url)"
    by (simp add: init_eq)
next
  assume "environ ''API_KEYS'' = None \<or> environ ''API_KEYS'' = Some []"
  then have "or_empty (environ ''API_KEYS'') = []"
    by (auto simp: or_empty_simps)
  then show "isl (init environ)"
    by (simp add: init_eq split: option.splits)
next
  assume "environ ''API_KEYS'' = None \<or> environ ''API_KEYS'' = Some []"
    and "environ ''API_URL'' = Some u \<and> u \<noteq> []"
  moreover from this have "or_empty (environ ''API_KEYS'') = []"
    by (auto simp: or_empty_simps)
  ultimately show "init environ = Inl (Exception missing_keys)"
    by (simp add: init_eq)
next
  assume "environ ''API_URL'' = Some u \<and> u \<noteq> [] \<and>
    environ ''API_KEYS'' = Some (k1 @ CHR '','' # rest) \<and> k1 \<noteq> [] \<and> CHR '','' \<notin> set k1"
  then show "init environ = Inr \<lparr>api_url = u, api_key = k1\<rparr>"
    by (simp add: init_eq or_empty_simps takeWhile_first_key)
qed

text \<open>
  No settings at all, a base URL without keys, and the settings
  \<open>API_URL=http://api\<close>, \<open>API_KEYS=k1,k2\<close>, which store \<open>k1\<close>.
\<close>

theorem init_contract_witness:
  "init Map.empty = Inl (Exception missing_url) \<and>
   init [''API_URL'' \<mapsto> ''http://api''] = Inl (Exception missing_keys) \<and>
   init [''API_URL'' \<mapsto> ''http://api'', ''API_KEYS'' \<mapsto> ''k1,k2''] =
     Inr \<lparr>api_url = ''http://api'', api_key = ''k1''\<rparr>"
  using init_contract [of Map.empty]
    init_contract [of "[''API_URL'' \<mapsto> ''http://api'']" "''http://api''"]
    init_contract [of "[''API_URL'' \<mapsto> ''http://api'', ''API_KEYS'' \<mapsto> ''k1,k2'']"
      "''http://api''" "''k1''" "''k2''"]
  by simp

text \<open>
  C10: when the first entry of the comma-separated API-key setting is empty, construction
  raises, whatever follows the first comma; with a base URL the error is the one of the
  keys. Only the first entry is looked at: when it is not empty (and the base URL is
  there), construction succeeds with it.
\<close>

theorem init_first_entry:
  assumes "environ ''API_KEYS'' = Some ks"
  shows "(item0 (str_split CHR '','' ks) = Inr [] \<longrightarrow>
            isl (init environ) \<and>
            (environ ''API_URL'' = Some u \<and> u \<noteq> [] \<longrightarrow>
               init environ = Inl (Exception missing_keys))) \<and>
         (item0 (str_split CHR '','' ks) = Inr k \<and> k \<noteq> [] \<and>
          environ ''API_URL'' = Some u \<and> u \<noteq> [] \<longrightarrow>
            init environ = Inr \<lparr>api_url = u, api_key = k\<rparr>)"
  using assms
  by (auto simp: init_eq item0_str_split or_empty_simps split: option.splits)

text \<open>The settings \<open>,k2\<close> and the empty setting raise; \<open>k1,\<close> stores \<open>k1\<close>.\<close>

theorem init_first_entry_witness:
  "init [''API_URL'' \<mapsto> ''http://api'', ''API_KEYS'' \<mapsto> '',k2''] = Inl (Exception missing_keys) \<and>
   init [''API_URL'' \<mapsto> ''http://api'', ''API_KEYS'' \<mapsto> []] = Inl (Exception missing_keys) \<and>
   init [''API_URL'' \<mapsto> ''http://api'', ''API_KEYS'' \<mapsto> ''k1,''] =
     Inr \<lparr>api_url = ''http://api'', api_key = ''k1''\<rparr>"
  using init_first_entry [of "[''API_URL'' \<mapsto> ''http://api'', ''API_KEYS'' \<mapsto> '',k2'']"
      "'',k2''" "''http://api''"]
    init_first_entry [of "[''API_URL'' \<mapsto> ''http://api'', ''API_KEYS'' \<mapsto> []]"
      "[]" "''http://api''"]
    init_first_entry [of "[''API_URL'' \<mapsto> ''http://api'', ''API_KEYS'' \<mapsto> ''k1,'']"
      "''k1,''" "''http://api''" "''k1''"]
  by simp

subsection \<open>The transport helpers\<close>

text \<open>Both helpers in one piece, the case of the HTTP library's own failure included.\<close>

lemma api_get_eq:
  "api_get W route s =
     (case server W (get_request s route) of
        None \<Rightarrow> (Inl ConnectionError, s\<lparr>sent := sent s @ [get_request s route]\<rparr>)
      | Some r \<Rightarrow>
          if status_code r = 200 then (Inr r, s\<lparr>sent := sent s @ [get_request s route]\<rparr>)
          else (Inl (Exception (content r)),
                s\<lparr>sent := sent s @ [get_request s route],
                  logged := logged s @ [''GETting API failed: '']\<rparr>))"
  by (simp add: api_get_def requests_call_def logging_error_def split: option.splits)

lemma api_post_eq:
  "api_post W route j file_path s =
     (case post_files W file_path of
        Inl e \<Rightarrow> (Inl e, s)
      | Inr fl \<Rightarrow>
          (case server W (post_request s route fl (post_json j)) of
             None \<Rightarrow>
               (Inl ConnectionError, s\<lparr>sent := sent s @ [post_request s route fl (post_json j)]\<rparr>)
           | Some r \<Rightarrow>
               if status_code r = 201
               then (Inr r, s\<lparr>sent := sent s @ [post_request s route fl (post_json j)]\<rparr>)
               else (Inl (Exception (content r)),
                     s\<lparr>sent := sent s @ [post_request s route fl (post_json j)],
                       logged := logged s @ [''POSTting API failed: '']\<rparr>)))"
  by (simp add: api_post_def requests_call_def logging_error_def split: option.splits sum.splits)

lemma post_files_empty: "post_files W [] = Inr None"
  by (simp add: post_files_def)

lemma post_files_path:
  "file_path \<noteq> [] \<Longrightarrow>
   post_files W file_path =
     (case fs W file_path of
        None \<Rightarrow> Inl (OSError file_path)
      | Some d \<Rightarrow> Inr (Some [(''file'', \<lparr>fh_path = file_path, fh_data = d\<rparr>)]))"
  by (simp add: post_files_def open_rb_def split: option.splits)

lemma post_json_simps: "post_json [] = None" "post_json (kv # kvs) = Some (kv # kvs)"
  by (simp_all add: post_json_def)

lemma api_get_issued: "issued s (snd (api_get W route s)) = [get_request s route]"
  by (simp add: api_get_eq issued_def split: option.splits)

lemma api_post_issued:
  "issued s (snd (api_post W route j file_path s)) =
     (case post_files W file_path of
        Inl e \<Rightarrow> []
      | Inr fl \<Rightarrow> [post_request s route fl (post_json j)])"
  by (simp add: api_post_eq issued_def split: option.splits sum.splits)

lemma api_get_self: "self (snd (api_get W route s)) = self s"
  by (simp add: api_get_eq split: option.splits)

lemma api_post_self: "self (snd (api_post W route j file_path s)) = self s"
  by (simp add: api_post_eq split: option.splits sum.splits)

text \<open>Every operation ends in the state its one transport call ends in.\<close>

lemma ping_snd: "snd (ping W s) = snd (api_get W ''/'' s)"
  by (simp add: ping_def split: prod.splits sum.splits)

lemma get_providers_snd: "snd (get_providers W s) = snd (api_get W ''/external-providers'' s)"
  by (simp add: get_providers_def split: prod.splits sum.splits)

lemma post_provider_snd:
  "snd (post_provider W n s) =
     snd (api_post W ''/external-providers'' (to_dict \<lparr>dto_name = n\<rparr>) [] s)"
  by (simp add: post_provider_def split: prod.splits sum.splits)

lemma post_provider_icon_snd:
  "snd (post_provider_icon W i p s) = snd (api_post W (icon_route i) [] p s)"
  by (simp add: post_provider_icon_def split: prod.splits sum.splits)



subsection \<open>The health check\<close>

text \<open>
  C1: \<open>ping\<close> never returns false. When the GET of the root path is answered with status
  200 it returns true; when it is answered with any other status the call raises the
  exception of \<open>_get\<close>, which carries the body of the response.
\<close>

theorem ping_result:
  "fst (ping W s) \<noteq> Inr False \<and>
   (server W (get_request s ''/'') = Some r \<longrightarrow>
      (status_code r = 200 \<longrightarrow> fst (ping W s) = Inr True) \<and>
      (status_code r \<noteq> 200 \<longrightarrow> fst (ping W s) = Inl (Exception (content r))))"
  by (auto simp: ping_def api_get_eq ok_def split: option.splits)

text \<open>A server answering 200, and one answering 404.\<close>

theorem ping_result_witness:
  "fst (ping (answering \<lparr>status_code = 200, content = ''pong'', json_body = None\<rparr> no_files) fresh)
     = Inr True \<and>
   fst (ping (answering \<lparr>status_code = 404, content = ''Not Found'', json_body = None\<rparr> no_files) fresh)
     = Inl (Exception ''Not Found'')"
  using ping_result [of "answering \<lparr>status_code = 200, content = ''pong'', json_body = None\<rparr> no_files"
      fresh "\<lparr>status_code = 200, content = ''pong'', json_body = None\<rparr>"]
    ping_result [of "answering \<lparr>status_code = 404, content = ''Not Found'', json_body = None\<rparr> no_files"
      fresh "\<lparr>status_code = 404, content = ''Not Found'', json_body = None\<rparr>"]
  by (simp add: answering_def)

subsection \<open>Listing and creating providers\<close>

lemma provider_load_json: "provider_load (provider_json p) = Inr p"
  by (simp add: provider_json_def)

lemma load_all_provider_json: "load_all provider_load (map provider_json ps) = Inr ps"
  by (induction ps) (simp_all add: provider_load_json)

text \<open>Loading many keeps the length and the order, whatever the schema.\<close>

lemma load_all_nth:
  "load_all t xs = Inr vs \<Longrightarrow>
   length vs = length xs \<and> (\<forall>i < length xs. t (xs ! i) = Inr (vs ! i))"
proof (induction xs arbitrary: vs)
  case Nil
  then show ?case by simp
next
  case (Cons x xs)
  from Cons.prems obtain v ws where v: "t x = Inr v" and ws: "load_all t xs = Inr ws"
    and vs: "vs = v # ws"
    by (auto split: sum.splits)
  from Cons.IH [OF ws] have "length ws = length xs"
    and "\<forall>i < length xs. t (xs ! i) = Inr (ws ! i)"
    by simp_all
  with v vs show ?case
    by (auto simp: nth_Cons split: nat.splits)
qed

text \<open>A page holds one item for each element of the array \<open>items\<close>, in its order.\<close>

lemma to_page_order:
  assumes "to_page obj t = Inr pg"
  shows "\<exists>xs. subscript obj ''items'' = Inr (JArr xs) \<and> length (items pg) = length xs \<and>
              (\<forall>i < length xs. t (xs ! i) = Inr (items pg ! i))"
proof -
  from assms obtain v vs where v: "subscript obj ''items'' = Inr v"
    and vs: "load_many t v = Inr vs" and pg: "pg = Page vs"
    by (auto simp: to_page_def split: sum.splits)
  from vs obtain xs where xs: "v = JArr xs" and "load_all t xs = Inr vs"
    by (cases v) auto
  with load_all_nth [of t xs vs] v pg show ?thesis
    by simp
qed

lemma post_provider_eq:
  "post_provider W provider_name s =
     (case api_post W ''/external-providers'' [(''name'', JStr provider_name)] [] s of
        (Inl e, s') \<Rightarrow> (Inl e, s')
      | (Inr response, s') \<Rightarrow>
          (case json_body response of
             None \<Rightarrow> (Inl JSONDecodeError, s')
           | Some v \<Rightarrow> (provider_load v, s')))"
  by (simp add: post_provider_def to_dict_def response_json_def
      split: prod.splits sum.splits option.splits)

text \<open>
  C5: when the GET of \<open>/external-providers\<close> is answered with status 200 and a JSON object
  whose field \<open>items\<close> is the array of the objects of the providers \<open>ps\<close>, \<open>get_providers\<close>
  returns the page whose items are \<open>ps\<close>: one record for each element, in the order of the
  array, with the identifier and the name of the element.
\<close>

theorem get_providers_page:
  assumes "server W (get_request s ''/external-providers'') = Some r"
    and "status_code r = 200"
    and "json_body r = Some (JObj kvs)"
    and "map_of kvs ''items'' = Some (JArr (map provider_json ps))"
  shows "fst (get_providers W s) = Inr (Page ps)"
  using assms
  by (simp add: get_providers_def api_get_eq response_json_def to_page_def load_all_provider_json)

text \<open>The answer \<open>{"items":[{"id":1,"name":"A"},{"id":2,"name":"B"}]}\<close>.\<close>

theorem get_providers_page_witness:
  "fst (get_providers
         (answering
            \<lparr>status_code = 200, content = ''items'',
             json_body = Some (JObj [(''items'',
               JArr [JObj [(''id'', JInt 1), (''name'', JStr ''A'')],
                     JObj [(''id'', JInt 2), (''name'', JStr ''B'')]])])\<rparr>
            no_files)
         fresh)
     = Inr (Page [\<lparr>prov_id = 1, prov_name = ''A''\<rparr>, \<lparr>prov_id = 2, prov_name = ''B''\<rparr>])"
  using get_providers_page
    [where W = "answering
            \<lparr>status_code = 200, content = ''items'',
             json_body = Some (JObj [(''items'',
               JArr [JObj [(''id'', JInt 1), (''name'', JStr ''A'')],
                     JObj [(''id'', JInt 2), (''name'', JStr ''B'')]])])\<rparr>
            no_files"
      and s = fresh
      and r = "\<lparr>status_code = 200, content = ''items'',
             json_body = Some (JObj [(''items'',
               JArr [JObj [(''id'', JInt 1), (''name'', JStr ''A'')],
                     JObj [(''id'', JInt 2), (''name'', JStr ''B'')]])])\<rparr>"
      and kvs = "[(''items'',
               JArr [JObj [(''id'', JInt 1), (''name'', JStr ''A'')],
                     JObj [(''id'', JInt 2), (''name'', JStr ''B'')]])]"
      and ps = "[\<lparr>prov_id = 1, prov_name = ''A''\<rparr>, \<lparr>prov_id = 2, prov_name = ''B''\<rparr>]"]
  by (simp add: answering_def provider_json_def)

text \<open>
  C6: for every name, \<open>post_provider\<close> issues exactly one request, a POST to
  \<open>/external-providers\<close> under the base URL with the JSON body \<open>{"name": name}\<close> and no
  file; when the server answers it with status 201 and the object of a provider \<open>p\<close>, the
  call returns \<open>p\<close>, the identifier and the name of the answer.
\<close>

theorem post_provider_contract:
  "issued s (snd (post_provider W provider_name s)) =
     [\<lparr>req_method = POST, req_url = api_url (self s) @ ''/external-providers'',
       req_headers = [(''x-api-key'', api_key (self s))], req_files = None,
       req_json = Some [(''name'', JStr provider_name)]\<rparr>] \<and>
   (server W (post_request s ''/external-providers'' None (Some [(''name'', JStr provider_name)]))
      = Some r \<and>
    status_code r = 201 \<and> json_body r = Some (provider_json p) \<longrightarrow>
      fst (post_provider W provider_name s) = Inr p)"
proof (intro conjI impI)
  show "issued s (snd (post_provider W provider_name s)) =
     [\<lparr>req_method = POST, req_url = api_url (self s) @ ''/external-providers'',
       req_headers = [(''x-api-key'', api_key (self s))], req_files = None,
       req_json = Some [(''name'', JStr provider_name)]\<rparr>]"
    by (simp add: post_provider_snd api_post_issued post_files_empty post_request_def
        post_json_simps to_dict_def api_headers_def)
next
  assume "server W (post_request s ''/external-providers'' None (Some [(''name'', JStr provider_name)]))
      = Some r \<and>
    status_code r = 201 \<and> json_body r = Some (provider_json p)"
  then show "fst (post_provider W provider_name s) = Inr p"
    by (simp add: post_provider_eq api_post_eq post_files_empty post_json_simps provider_load_json)
qed

text \<open>The name \<open>X\<close> and the answer 201 with \<open>{"id":5,"name":"X"}\<close>.\<close>

theorem post_provider_contract_witness:
  "fst (post_provider
         (answering
            \<lparr>status_code = 201, content = ''created'',
             json_body = Some (JObj [(''id'', JInt 5), (''name'', JStr ''X'')])\<rparr>
            no_files)
         ''X'' fresh)
     = Inr \<lparr>prov_id = 5, prov_name = ''X''\<rparr>"
  using post_provider_contract
    [where W = "answering
            \<lparr>status_code = 201, content = ''created'',
             json_body = Some (JObj [(''id'', JInt 5), (''name'', JStr ''X'')])\<rparr>
            no_files"
      and s = fresh and provider_name = "''X''"
      and r = "\<lparr>status_code = 201, content = ''created'',
             json_body = Some (JObj [(''id'', JInt 5), (''name'', JStr ''X'')])\<rparr>"
      and p = "\<lparr>prov_id = 5, prov_name = ''X''\<rparr>"]
  by (simp add: answering_def provider_json_def)

subsection \<open>Uploading an icon, and the payload of a POST\<close>

text \<open>
  C7: for every provider id and every path that is not empty, \<open>post_provider_icon\<close> raises
  the error of \<open>open\<close> and leaves the state as it was, no request issued, when the file
  at the path cannot be opened; when it can, the call issues exactly one request, a POST
  to \<open>/external-providers/{id}/icon\<close> under the base URL whose only payload is the opened
  file, under the field name \<open>file\<close>.
\<close>

theorem icon_upload:
  assumes "icon_path \<noteq> []"
  shows "(fs W icon_path = None \<longrightarrow>
            post_provider_icon W provider_id icon_path s = (Inl (OSError icon_path), s) \<and>
            issued s (snd (post_provider_icon W provider_id icon_path s)) = []) \<and>
         (fs W icon_path = Some d \<longrightarrow>
            issued s (snd (post_provider_icon W provider_id icon_path s)) =
              [\<lparr>req_method = POST,
                req_url = api_url (self s) @ ''/external-providers/'' @ str_int provider_id @ ''/icon'',
                req_headers = [(''x-api-key'', api_key (self s))],
                req_files = Some [(''file'', \<lparr>fh_path = icon_path, fh_data = d\<rparr>)],
                req_json = None\<rparr>])"
  using assms
  by (auto simp: post_provider_icon_def api_post_eq post_files_path issued_def icon_route_def
      post_request_def post_json_def api_headers_def split: option.splits)

text \<open>Provider 5 and the path \<open>a.png\<close>, in a world without files and in one with the file.\<close>

theorem icon_upload_witness:
  "post_provider_icon (answering \<lparr>status_code = 201, content = [], json_body = None\<rparr> no_files)
      5 ''a.png'' fresh = (Inl (OSError ''a.png''), fresh) \<and>
   issued fresh (snd (post_provider_icon
      (answering \<lparr>status_code = 201, content = [], json_body = None\<rparr> (one_file ''a.png'' ''PNG''))
      5 ''a.png'' fresh)) =
     [\<lparr>req_method = POST, req_url = ''http://api/external-providers/5/icon'',
       req_headers = [(''x-api-key'', ''k1'')],
       req_files = Some [(''file'', \<lparr>fh_path = ''a.png'', fh_data = ''PNG''\<rparr>)],
       req_json = None\<rparr>]"
  using icon_upload [where icon_path = "''a.png''" and provider_id = 5 and s = fresh
      and W = "answering \<lparr>status_code = 201, content = [], json_body = None\<rparr> no_files"]
    icon_upload [where icon_path = "''a.png''" and provider_id = 5 and s = fresh
      and W = "answering \<lparr>status_code = 201, content = [], json_body = None\<rparr>
                 (one_file ''a.png'' ''PNG'')"
      and d = "''PNG''"]
  by (simp add: answering_def no_files_def one_file_def fresh_def str_int_5)

text \<open>
  With the empty path there is no file to open, and yet the call does not raise: it
  issues a POST that carries no file at all, and returns when the answer is 201.
\<close>

theorem icon_upload_counterexample:
  "fs (answering \<lparr>status_code = 201, content = [], json_body = None\<rparr> no_files) [] = None \<and>
   fst (post_provider_icon (answering \<lparr>status_code = 201, content = [], json_body = None\<rparr> no_files)
      5 [] fresh) = Inr () \<and>
   issued fresh (snd (post_provider_icon
      (answering \<lparr>status_code = 201, content = [], json_body = None\<rparr> no_files) 5 [] fresh)) =
     [\<lparr>req_method = POST, req_url = ''http://api/external-providers/5/icon'',
       req_headers = [(''x-api-key'', ''k1'')], req_files = None, req_json = None\<rparr>]"
  by (simp add: post_provider_icon_def api_post_eq post_files_empty post_json_simps issued_def
      icon_route_def post_request_def api_headers_def answering_def no_files_def fresh_def
      str_int_5)




subsection \<open>The API key and the client object\<close>

text \<open>
  C8: every request issued by \<open>ping\<close>, \<open>get_providers\<close>, \<open>post_provider\<close> and
  \<open>post_provider_icon\<close> has the header \<open>x-api-key\<close>, and only it, set to the key of the
  client object.
\<close>

theorem api_key_header:
  "(\<forall>req \<in> set (issued s (snd (ping W s))).
      req_headers req = [(''x-api-key'', api_key (self s))]) \<and>
   (\<forall>req \<in> set (issued s (snd (get_providers W s))).
      req_headers req = [(''x-api-key'', api_key (self s))]) \<and>
   (\<forall>req \<in> set (issued s (snd (post_provider W provider_name s))).
      req_headers req = [(''x-api-key'', api_key (self s))]) \<and>
   (\<forall>req \<in> set (issued s (snd (post_provider_icon W provider_id icon_path s))).
      req_headers req = [(''x-api-key'', api_key (self s))])"
  by (auto simp: ping_snd get_providers_snd post_provider_snd post_provider_icon_snd
      api_get_issued api_post_issued get_request_def post_request_def api_headers_def
      split: sum.splits)

text \<open>The request of \<open>ping\<close> from the client with the key \<open>k1\<close>.\<close>

theorem api_key_header_witness:
  "get_request fresh ''/''
     \<in> set (issued fresh (snd (ping
          (answering \<lparr>status_code = 200, content = [], json_body = None\<rparr> no_files) fresh))) \<and>
   req_headers (get_request fresh ''/'') = [(''x-api-key'', ''k1'')]"
proof -
  have issued: "get_request fresh ''/''
     \<in> set (issued fresh (snd (ping
          (answering \<lparr>status_code = 200, content = [], json_body = None\<rparr> no_files) fresh)))"
    by (simp add: ping_snd api_get_issued)
  with api_key_header [of fresh
      "answering \<lparr>status_code = 200, content = [], json_body = None\<rparr> no_files"]
  have "req_headers (get_request fresh ''/'') = [(''x-api-key'', api_key (self fresh))]"
    by blast
  with issued show ?thesis
    by (simp add: fresh_def)
qed

text \<open>
  C9: no operation changes the client object: after \<open>ping\<close>, \<open>get_providers\<close>,
  \<open>post_provider\<close> and \<open>post_provider_icon\<close>, whether they return or raise, the base URL
  and the key are what they were.
\<close>

theorem self_unchanged:
  "self (snd (ping W s)) = self s \<and>
   self (snd (get_providers W s)) = self s \<and>
   self (snd (post_provider W provider_name s)) = self s \<and>
   self (snd (post_provider_icon W provider_id icon_path s)) = self s"
  by (simp add: ping_snd get_providers_snd post_provider_snd post_provider_icon_snd
      api_get_self api_post_self)

end
